theory Spec2Isabelle
  imports
    Complex_Main
    "HOL-Library.Multiset"
    "HOL-Library.List_Lexorder"
    "HOL-Library.Char_ord"
    "HOL-Library.Product_Lexorder"
begin

section \<open>Data model\<close>

text \<open>
  The dashboard script \<^verbatim>\<open>app.py\<close> reads one CSV table, cleans it, filters it by two
  sidebar selections and renders grouped aggregates. A table is a list of rows in file
  order; a missing cell (pandas \<^verbatim>\<open>NaN\<close> / \<^verbatim>\<open>NaT\<close>) is \<open>None\<close>.

  A calendar date is (year, month, day); a timestamp is a date with the nanosecond of the
  day. The lexicographic order on these tuples is the chronological order, and the
  lexicographic order on strings is the code point order pandas sorts strings by.
\<close>

type_synonym date = "nat \<times> nat \<times> nat"

type_synonym timestamp = "date \<times> nat"

text \<open>
  One row, with the column names that line 15 of the script produces (surrounding blanks
  stripped, inner blanks replaced by underscores). The two date columns are text in the
  file (\<open>'d = string\<close>) and timestamps after \<^verbatim>\<open>pd.to_datetime\<close> (\<open>'d = timestamp\<close>).
\<close>

record 'd user_record =
  User_ID :: "string option"
  Username :: "string option"
  Country :: "string option"
  Device_Type :: "string option"
  Subscription_Tier :: "string option"
  Preferred_Game_Mode :: "string option"
  Signup_Date :: "'d option"
  Last_Login :: "'d option"
  Total_Revenue_USD :: "real option"
  Avg_Session_Duration_Min :: "real option"
  Total_Play_Sessions :: "real option"

text \<open>
  A row of the cleaned table: the derived columns of lines 18 to 21.
\<close>

record row = "timestamp user_record" +
  Login_Date :: "date option"
  Week :: "string option"
  Month :: "string option"
  Days_Since_Last_Login :: "int option"

datatype error = FileNotFoundError | EmptyDataError

text \<open>
  The script pins no version of pandas, and one operation it calls changed with pandas 3:
  \<^verbatim>\<open>astype(str)\<close> on a column with missing cells. The installed version is a
  parameter of the model; \<open>Pandas_2\<close> stands for every version before 3.
\<close>

datatype pandas = Pandas_2 | Pandas_3

text \<open>
  What \<^verbatim>\<open>pd.read_csv("data.csv")\<close> finds: no readable file, a file without a header line,
  or a header line followed by the data rows (possibly none).
\<close>

datatype csv_file = Missing | Blank | Table "string user_record list"


section \<open>Calendar arithmetic and formatting\<close>

definition is_leap :: "nat \<Rightarrow> bool" where
  "is_leap y = (if y mod 100 = 0 then y mod 400 = 0 else y mod 4 = 0)"

text \<open>Days of the year before the first day of month \<open>m\<close> (1 to 12).\<close>

definition days_before_month :: "nat \<Rightarrow> nat \<Rightarrow> nat" where
  "days_before_month y m =
     [0, 0, 31, 59, 90, 120, 151, 181, 212, 243, 273, 304, 334] ! m
       + (if 2 < m \<and> is_leap y then 1 else 0)"

text \<open>Days before the first of January of year \<open>y\<close>, counted from 0001-01-01.\<close>

definition days_before_year :: "nat \<Rightarrow> nat" where
  "days_before_year y =
     (let p = y - 1 in p * 365 + p div 4 - p div 100 + p div 400)"

text \<open>The proleptic Gregorian ordinal: 0001-01-01, a Monday, is day 1.\<close>

definition toordinal :: "date \<Rightarrow> nat" where
  "toordinal dt = (case dt of (y, m, d) \<Rightarrow> days_before_year y + days_before_month y m + d)"

text \<open>Day of the week with Sunday as 0, and day of the year with the first of January as 0.\<close>

definition wday :: "date \<Rightarrow> nat" where
  "wday dt = toordinal dt mod 7"

definition yday :: "date \<Rightarrow> nat" where
  "yday dt = (case dt of (y, m, d) \<Rightarrow> days_before_month y m + d - 1)"

definition digit_char :: "nat \<Rightarrow> char" where
  "digit_char n = ''0123456789'' ! (n mod 10)"

text \<open>
  The last \<open>w\<close> decimal digits of \<open>n\<close>, zero padded: \<^verbatim>\<open>%02d\<close> for a number below 100 and
  \<^verbatim>\<open>%04d\<close> for a year below 10000 (a pandas timestamp has a year from 1677 to 2262).
\<close>

primrec zero_pad :: "nat \<Rightarrow> nat \<Rightarrow> string" where
  "zero_pad 0 n = []"
| "zero_pad (Suc w) n = zero_pad w (n div 10) @ [digit_char n]"

text \<open>
  \<^verbatim>\<open>strftime('%Y-%U')\<close>: the year and the week of the year, where the weeks start on
  Sunday and the days before the first Sunday are in week 00.
\<close>

definition strftime_Y_U :: "timestamp \<Rightarrow> string" where
  "strftime_Y_U t =
     (case t of ((y, m, d), _) \<Rightarrow>
        zero_pad 4 y @ ''-'' @ zero_pad 2 ((yday (y, m, d) + 7 - wday (y, m, d)) div 7))"

text \<open>
  \<^verbatim>\<open>to_period('M')\<close> followed by the conversion to a string: the month as
  \<^verbatim>\<open>YYYY-MM\<close>.
\<close>

definition period_M_str :: "timestamp \<Rightarrow> string" where
  "period_M_str t = (case t of ((y, m, d), _) \<Rightarrow> zero_pad 4 y @ ''-'' @ zero_pad 2 m)"

text \<open>
  \<^verbatim>\<open>astype(str)\<close> on the column of months, given each cell's text. Before pandas 3 the
  result is a column of Python strings in which a missing month has become the text
  \<^verbatim>\<open>NaT\<close>; from pandas 3 on the result has the string dtype and a missing month stays
  missing.
\<close>

definition astype_str :: "pandas \<Rightarrow> string option \<Rightarrow> string option" where
  "astype_str version c =
     (case c of
        Some s \<Rightarrow> Some s
      | None \<Rightarrow> (case version of Pandas_2 \<Rightarrow> Some ''NaT'' | Pandas_3 \<Rightarrow> None))"

definition ns_per_day :: int where
  "ns_per_day = 86400 * 1000000000"

definition ns_since_origin :: "timestamp \<Rightarrow> int" where
  "ns_since_origin t = (case t of (dt, ns) \<Rightarrow> int (toordinal dt) * ns_per_day + int ns)"

text \<open>The \<^verbatim>\<open>days\<close> component of the time difference \<open>a - b\<close>: floor division.\<close>

definition timedelta_days :: "timestamp \<Rightarrow> timestamp \<Rightarrow> int" where
  "timedelta_days a b = (ns_since_origin a - ns_since_origin b) div ns_per_day"


section \<open>The pandas operations the script calls\<close>

primrec dropna_values :: "'a option list \<Rightarrow> 'a list" where
  "dropna_values [] = []"
| "dropna_values (x # xs) = (case x of None \<Rightarrow> dropna_values xs | Some v \<Rightarrow> v # dropna_values xs)"

text \<open>\<^verbatim>\<open>unique()\<close>: the distinct values in order of first appearance.\<close>

definition unique :: "'a list \<Rightarrow> 'a list" where
  "unique xs = rev (remdups (rev xs))"

text \<open>\<^verbatim>\<open>nunique()\<close>: the number of distinct values, missing cells not counted.\<close>

definition nunique :: "'a option list \<Rightarrow> nat" where
  "nunique xs = length (remdups (dropna_values xs))"

text \<open>\<^verbatim>\<open>sum()\<close> skips missing cells; the sum of no cell is 0.\<close>

definition sum_skipna :: "real option list \<Rightarrow> real" where
  "sum_skipna xs = sum_list (dropna_values xs)"

text \<open>\<^verbatim>\<open>mean()\<close> skips missing cells; the mean of no cell is \<^verbatim>\<open>NaN\<close>.\<close>

definition mean_skipna :: "real option list \<Rightarrow> real option" where
  "mean_skipna xs =
     (let vs = dropna_values xs
      in if vs = [] then None else Some (sum_list vs / real (length vs)))"

text \<open>\<^verbatim>\<open>isin(values)\<close>: a missing cell is in no list of selected strings.\<close>

definition isin :: "'a list \<Rightarrow> 'a option \<Rightarrow> bool" where
  "isin selected c = (case c of None \<Rightarrow> False | Some v \<Rightarrow> v \<in> set selected)"

text \<open>
  \<^verbatim>\<open>groupby(key)\<close> with its defaults \<^verbatim>\<open>sort=True, dropna=True\<close>: one group for each
  distinct key that is not missing, the groups in ascending order of the key, the rows of
  a group in table order. A row whose key is missing is in no group.
\<close>

definition groupby :: "('r \<Rightarrow> 'k::linorder option) \<Rightarrow> 'r list \<Rightarrow> ('k \<times> 'r list) list" where
  "groupby key rows =
     map (\<lambda>k. (k, filter (\<lambda>r. key r = Some k) rows))
         (sort (remdups (dropna_values (map key rows))))"

text \<open>Aggregating one column of every group, as \<^verbatim>\<open>groupby(key)[col].agg()\<close> does.\<close>

definition agg :: "('r \<Rightarrow> 'c) \<Rightarrow> ('c list \<Rightarrow> 'v) \<Rightarrow> ('k \<times> 'r list) list \<Rightarrow> ('k \<times> 'v) list" where
  "agg col f groups = map (\<lambda>(k, g). (k, f (map col g))) groups"

text \<open>
  \<^verbatim>\<open>sort_index()\<close> of a grouped series. The index of a grouped series has no duplicates,
  so the sorting algorithm cannot influence the result.
\<close>

definition sort_index :: "('k::linorder \<times> 'v) list \<Rightarrow> ('k \<times> 'v) list" where
  "sort_index s = sort_key fst s"

fun cumsum_from :: "real \<Rightarrow> real list \<Rightarrow> real list" where
  "cumsum_from acc [] = []"
| "cumsum_from acc (x # xs) = (acc + x) # cumsum_from (acc + x) xs"

definition cumsum :: "('k \<times> real) list \<Rightarrow> ('k \<times> real) list" where
  "cumsum s = zip (map fst s) (cumsum_from 0 (map snd s))"

text \<open>
  \<^verbatim>\<open>sort_values(by=col, ascending=...)\<close> on one column sorts through pandas'
  \<^verbatim>\<open>nargsort\<close>: the positions of the missing cells go last, the other cells are handed to
  numpy's \<^verbatim>\<open>argsort\<close> (reversed before and after when the order is descending). The script
  leaves \<^verbatim>\<open>kind\<close> at its default \<^verbatim>\<open>'quicksort'\<close>, which pandas documents as not
  stable, so \<open>argsort\<close> is a parameter: any function that returns the positions of its
  argument in an ascending order of the values.
\<close>

definition nargsort :: "(real list \<Rightarrow> nat list) \<Rightarrow> bool \<Rightarrow> real option list \<Rightarrow> nat list" where
  "nargsort argsort ascending items =
     (let idx = [0..<length items];
          non_nan_idx = filter (\<lambda>i. items ! i \<noteq> None) idx;
          non_nans = dropna_values items;
          nan_idx = filter (\<lambda>i. items ! i = None) idx;
          non_nans' = (if ascending then non_nans else rev non_nans);
          non_nan_idx' = (if ascending then non_nan_idx else rev non_nan_idx);
          indexer = map (\<lambda>j. non_nan_idx' ! j) (argsort non_nans');
          indexer' = (if ascending then indexer else rev indexer)
      in indexer' @ nan_idx)"

definition sort_values :: "(real list \<Rightarrow> nat list) \<Rightarrow> ('r \<Rightarrow> real option) \<Rightarrow> bool \<Rightarrow> 'r list \<Rightarrow> 'r list" where
  "sort_values argsort by ascending frame =
     map (\<lambda>i. frame ! i) (nargsort argsort ascending (map by frame))"


definition head :: "nat \<Rightarrow> 'r list \<Rightarrow> 'r list" where
  "head n frame = take n frame"


text \<open>Two sorting functions with this guarantee: one keeps ties in order, one reverses them.\<close>

definition stable_argsort :: "real list \<Rightarrow> nat list" where
  "stable_argsort vs = sort_key (\<lambda>i. vs ! i) [0..<length vs]"



section \<open>The script\<close>

subsection \<open>Loading and cleaning (lines 12 to 26)\<close>

definition read_csv :: "csv_file \<Rightarrow> error + string user_record list" where
  "read_csv file =
     (case file of
        Missing \<Rightarrow> Inl FileNotFoundError
      | Blank \<Rightarrow> Inl EmptyDataError
      | Table rows \<Rightarrow> Inr rows)"

text \<open>
  \<open>load_data\<close> is a function of the file, the parser, the processing instant and the
  installed pandas, so the
  \<^verbatim>\<open>st.cache_data\<close> decorator, which returns the table of an earlier call, changes no result.

  \<^verbatim>\<open>pd.to_datetime(column, dayfirst=True, errors='coerce')\<close>: the parser of one cell is
  the parameter \<open>to_datetime\<close>; text it cannot read becomes a missing timestamp, and a
  missing cell stays missing.
\<close>

definition coerce :: "(string \<Rightarrow> timestamp option) \<Rightarrow> string option \<Rightarrow> timestamp option" where
  "coerce to_datetime c = (case c of None \<Rightarrow> None | Some s \<Rightarrow> to_datetime s)"

definition clean_row ::
  "pandas \<Rightarrow> (string \<Rightarrow> timestamp option) \<Rightarrow> timestamp \<Rightarrow> string user_record \<Rightarrow> row" where
  "clean_row version to_datetime today r =
     (let signup = coerce to_datetime (Signup_Date r);
          login = coerce to_datetime (Last_Login r)
      in \<lparr> User_ID = User_ID r,
           Username = Username r,
           Country = Country r,
           Device_Type = Device_Type r,
           Subscription_Tier = Subscription_Tier r,
           Preferred_Game_Mode = Preferred_Game_Mode r,
           Signup_Date = signup,
           Last_Login = login,
           Total_Revenue_USD = Total_Revenue_USD r,
           Avg_Session_Duration_Min = Avg_Session_Duration_Min r,
           Total_Play_Sessions = Total_Play_Sessions r,
           Login_Date = map_option fst login,
           Week = map_option strftime_Y_U login,
           Month = astype_str version (map_option period_M_str login),
           Days_Since_Last_Login = map_option (timedelta_days today) login \<rparr>)"

definition load_data ::
  "pandas \<Rightarrow> (string \<Rightarrow> timestamp option) \<Rightarrow> timestamp \<Rightarrow> csv_file \<Rightarrow> error + row list" where
  "load_data version to_datetime today file =
     (case read_csv file of
        Inl e \<Rightarrow> Inl e
      | Inr rows \<Rightarrow> Inr (map (clean_row version to_datetime today) rows))"

subsection \<open>Sidebar filters (lines 33 to 36)\<close>

definition country_options :: "row list \<Rightarrow> string list" where
  "country_options df = unique (dropna_values (map Country df))"

definition device_options :: "row list \<Rightarrow> string list" where
  "device_options df = unique (dropna_values (map Device_Type df))"

definition filtered_df :: "row list \<Rightarrow> string list \<Rightarrow> string list \<Rightarrow> row list" where
  "filtered_df df selected_country selected_device =
     filter (\<lambda>r. isin selected_country (Country r) \<and> isin selected_device (Device_Type r)) df"

subsection \<open>Key metrics (lines 44 to 46)\<close>

definition total_users :: "row list \<Rightarrow> nat" where
  "total_users view = nunique (map User_ID view)"

definition total_revenue :: "row list \<Rightarrow> real" where
  "total_revenue view = sum_skipna (map Total_Revenue_USD view)"

definition avg_session_duration :: "row list \<Rightarrow> real option" where
  "avg_session_duration view = mean_skipna (map Avg_Session_Duration_Min view)"

subsection \<open>Engagement trends (lines 53 to 55)\<close>

definition dau :: "row list \<Rightarrow> (date \<times> nat) list" where
  "dau view = agg User_ID nunique (groupby Login_Date view)"

definition wau :: "row list \<Rightarrow> (string \<times> nat) list" where
  "wau view = agg User_ID nunique (groupby Week view)"

definition monthly_active_users :: "row list \<Rightarrow> (string \<times> nat) list" where
  "monthly_active_users df = agg User_ID nunique (groupby Month df)"

subsection \<open>Cumulative revenue by signup date (lines 78 to 81)\<close>

definition daily_revenue :: "row list \<Rightarrow> (timestamp \<times> real) list" where
  "daily_revenue df =
     (let revenue_by_signup = filter (\<lambda>r. Signup_Date r \<noteq> None) df
      in cumsum (sort_index (agg Total_Revenue_USD sum_skipna (groupby Signup_Date revenue_by_signup))))"

subsection \<open>Revenue by segment (lines 103 to 111)\<close>

definition revenue_by_segment :: "(row \<Rightarrow> string option) \<Rightarrow> row list \<Rightarrow> (string \<times> real) list" where
  "revenue_by_segment segment view = agg Total_Revenue_USD sum_skipna (groupby segment view)"

definition rev_device :: "row list \<Rightarrow> (string \<times> real) list" where
  "rev_device view = revenue_by_segment Device_Type view"

definition rev_tier :: "row list \<Rightarrow> (string \<times> real) list" where
  "rev_tier view = revenue_by_segment Subscription_Tier view"

definition rev_mode :: "row list \<Rightarrow> (string \<times> real) list" where
  "rev_mode view = revenue_by_segment Preferred_Game_Mode view"

subsection \<open>High-value users (line 118)\<close>

definition top_users :: "(real list \<Rightarrow> nat list) \<Rightarrow> nat \<Rightarrow> row list \<Rightarrow> row list" where
  "top_users argsort n view = head n (sort_values argsort Total_Revenue_USD False view)"

definition top_10 :: "(real list \<Rightarrow> nat list) \<Rightarrow> row list \<Rightarrow> row list" where
  "top_10 argsort view = top_users argsort 10 view"

subsection \<open>One run of the script\<close>

text \<open>Everything the page shows after the data has been loaded.\<close>

record dashboard =
  loaded_records :: nat
  shown_records :: nat
  metric_users :: nat
  metric_revenue :: real
  metric_session :: "real option"
  chart_dau :: "(date \<times> nat) list"
  chart_wau :: "(string \<times> nat) list"
  chart_mau :: "(string \<times> nat) list"
  chart_revenue :: "(timestamp \<times> real) list"
  chart_device :: "(string \<times> real) list"
  chart_tier :: "(string \<times> real) list"
  chart_mode :: "(string \<times> real) list"
  table_top_10 :: "(string option \<times> real option \<times> real option \<times> string option) list"

definition render :: "(real list \<Rightarrow> nat list) \<Rightarrow> row list \<Rightarrow> string list \<Rightarrow> string list \<Rightarrow> dashboard" where
  "render argsort df selected_country selected_device =
     (let view = filtered_df df selected_country selected_device
      in \<lparr> loaded_records = length df,
           shown_records = length view,
           metric_users = total_users view,
           metric_revenue = total_revenue view,
           metric_session = avg_session_duration view,
           chart_dau = dau view,
           chart_wau = wau view,
           chart_mau = monthly_active_users df,
           chart_revenue = daily_revenue df,
           chart_device = rev_device view,
           chart_tier = rev_tier view,
           chart_mode = rev_mode view,
           table_top_10 =
             map (\<lambda>r. (Username r, Total_Revenue_USD r, Total_Play_Sessions r, Preferred_Game_Mode r))
                 (top_10 argsort view) \<rparr>)"

text \<open>
  A run ends in one of three ways: \<^verbatim>\<open>read_csv\<close> raises, \<^verbatim>\<open>st.stop()\<close> ends the run
  on an empty table, or the page is rendered.
\<close>

datatype 'a outcome = Raised error | Stopped | Rendered 'a

definition app ::
  "pandas \<Rightarrow> (string \<Rightarrow> timestamp option) \<Rightarrow> timestamp \<Rightarrow> (real list \<Rightarrow> nat list) \<Rightarrow> csv_file
     \<Rightarrow> string list \<Rightarrow> string list \<Rightarrow> dashboard outcome" where
  "app version to_datetime today argsort file selected_country selected_device =
     (case load_data version to_datetime today file of
        Inl e \<Rightarrow> Raised e
      | Inr df \<Rightarrow>
          if df = [] then Stopped
          else Rendered (render argsort df selected_country selected_device))"


section \<open>The arithmetic of the revenue column\<close>











section \<open>The cumulative revenue as the specification words it\<close>




section \<open>Sample data\<close>

text \<open>
  A parser for two spellings of a day-first date, a processing day, and a file of three
  rows: two rows of user U1 with the same revenue, and a row of user U2 whose last login
  cannot be read and whose subscription tier is missing.
\<close>

definition sample_parse :: "string \<Rightarrow> timestamp option" where
  "sample_parse s =
     (if s = ''15/03/2024'' then Some ((2024, 3, 15), 0)
      else if s = ''05/02/2024'' then Some ((2024, 2, 5), 0)
      else None)"

definition sample_today :: timestamp where
  "sample_today = ((2024, 4, 2), 0)"

definition csv_a :: "string user_record" where
  "csv_a = \<lparr> User_ID = Some ''U1'', Username = Some ''ann'', Country = Some ''US'',
     Device_Type = Some ''Mobile'', Subscription_Tier = Some ''Gold'',
     Preferred_Game_Mode = Some ''Solo'', Signup_Date = Some ''05/02/2024'',
     Last_Login = Some ''15/03/2024'', Total_Revenue_USD = Some 10,
     Avg_Session_Duration_Min = Some 30, Total_Play_Sessions = Some 4 \<rparr>"

definition csv_b :: "string user_record" where
  "csv_b = \<lparr> User_ID = Some ''U2'', Username = Some ''bob'', Country = Some ''US'',
     Device_Type = Some ''Desktop'', Subscription_Tier = None,
     Preferred_Game_Mode = Some ''Duo'', Signup_Date = Some ''15/03/2024'',
     Last_Login = Some ''yesterday'', Total_Revenue_USD = Some 20,
     Avg_Session_Duration_Min = Some 50, Total_Play_Sessions = Some 9 \<rparr>"

definition csv_c :: "string user_record" where
  "csv_c = \<lparr> User_ID = Some ''U1'', Username = Some ''ann'', Country = Some ''FR'',
     Device_Type = Some ''Mobile'', Subscription_Tier = Some ''Gold'',
     Preferred_Game_Mode = Some ''Solo'', Signup_Date = None,
     Last_Login = Some ''05/02/2024'', Total_Revenue_USD = Some 10,
     Avg_Session_Duration_Min = None, Total_Play_Sessions = Some 1 \<rparr>"

definition sample_file :: csv_file where
  "sample_file = Table [csv_a, csv_b, csv_c]"

text \<open>
  The three rows as \<open>load_data\<close> cleans them with pandas 3 (lemma \<open>load_sample_file\<close>);
  before pandas 3 the month of the second row is the text \<^verbatim>\<open>NaT\<close>.
\<close>

definition row_a :: row where
  "row_a = \<lparr> User_ID = Some ''U1'', Username = Some ''ann'', Country = Some ''US'',
     Device_Type = Some ''Mobile'', Subscription_Tier = Some ''Gold'',
     Preferred_Game_Mode = Some ''Solo'', Signup_Date = Some ((2024, 2, 5), 0),
     Last_Login = Some ((2024, 3, 15), 0), Total_Revenue_USD = Some 10,
     Avg_Session_Duration_Min = Some 30, Total_Play_Sessions = Some 4,
     Login_Date = Some (2024, 3, 15), Week = Some ''2024-10'', Month = Some ''2024-03'',
     Days_Since_Last_Login = Some 18 \<rparr>"

definition row_b :: row where
  "row_b = \<lparr> User_ID = Some ''U2'', Username = Some ''bob'', Country = Some ''US'',
     Device_Type = Some ''Desktop'', Subscription_Tier = None,
     Preferred_Game_Mode = Some ''Duo'', Signup_Date = Some ((2024, 3, 15), 0),
     Last_Login = None, Total_Revenue_USD = Some 20,
     Avg_Session_Duration_Min = Some 50, Total_Play_Sessions = Some 9,
     Login_Date = None, Week = None, Month = None,
     Days_Since_Last_Login = None \<rparr>"

definition row_c :: row where
  "row_c = \<lparr> User_ID = Some ''U1'', Username = Some ''ann'', Country = Some ''FR'',
     Device_Type = Some ''Mobile'', Subscription_Tier = Some ''Gold'',
     Preferred_Game_Mode = Some ''Solo'', Signup_Date = None,
     Last_Login = Some ((2024, 2, 5), 0), Total_Revenue_USD = Some 10,
     Avg_Session_Duration_Min = None, Total_Play_Sessions = Some 1,
     Login_Date = Some (2024, 2, 5), Week = Some ''2024-05'', Month = Some ''2024-02'',
     Days_Since_Last_Login = Some 57 \<rparr>"

definition sample_df :: "row list" where
  "sample_df = [row_a, row_b, row_c]"

text \<open>Twenty rows of the same revenue, told apart by their number of play sessions.\<close>

definition tied_view :: "row list" where
  "tied_view =
     map (\<lambda>k. row_a\<lparr>Total_Play_Sessions := Some k\<rparr>)
       [0, 1, 2, 3, 4, 5, 6, 7, 8, 9, 10, 11, 12, 13, 14, 15, 16, 17, 18, 19]"




section \<open>Evaluating the sample data\<close>

lemma zero_pad_numeral:
  "zero_pad (numeral k) n = zero_pad (pred_numeral k) (n div 10) @ [digit_char n]"
  by (subst numeral_eq_Suc) simp

lemma week_of_sample_logins:
  "(yday (2024, 3, 15) + 7 - wday (2024, 3, 15)) div 7 = 10"
  "(yday (2024, 2, 5) + 7 - wday (2024, 2, 5)) div 7 = 5"
  by (simp_all add: yday_def wday_def toordinal_def days_before_year_def
      days_before_month_def is_leap_def)

lemma strftime_sample_logins:
  "strftime_Y_U ((2024, 3, 15), 0) = ''2024-10''"
  "strftime_Y_U ((2024, 2, 5), 0) = ''2024-05''"
  by (simp_all add: strftime_Y_U_def week_of_sample_logins zero_pad_numeral digit_char_def)

lemma period_sample_logins:
  "period_M_str ((2024, 3, 15), 0) = ''2024-03''"
  "period_M_str ((2024, 2, 5), 0) = ''2024-02''"
  by (simp_all add: period_M_str_def zero_pad_numeral digit_char_def)

lemma days_since_sample_logins:
  "timedelta_days sample_today ((2024, 3, 15), 0) = 18"
  "timedelta_days sample_today ((2024, 2, 5), 0) = 57"
  by (simp_all add: timedelta_days_def ns_since_origin_def ns_per_day_def sample_today_def
      toordinal_def days_before_year_def days_before_month_def is_leap_def)

lemma clean_sample_rows:
  "clean_row Pandas_3 sample_parse sample_today csv_a = row_a"
  "clean_row Pandas_3 sample_parse sample_today csv_b = row_b"
  "clean_row Pandas_3 sample_parse sample_today csv_c = row_c"
  "clean_row Pandas_2 sample_parse sample_today csv_a = row_a"
  "clean_row Pandas_2 sample_parse sample_today csv_b = row_b\<lparr>Month := Some ''NaT''\<rparr>"
  "clean_row Pandas_2 sample_parse sample_today csv_c = row_c"
  by (simp_all add: clean_row_def Let_def coerce_def astype_str_def
      sample_parse_def csv_a_def csv_b_def csv_c_def
      row_a_def row_b_def row_c_def strftime_sample_logins period_sample_logins
      days_since_sample_logins)

lemma load_sample_file:
  "load_data Pandas_3 sample_parse sample_today sample_file = Inr sample_df"
  "load_data Pandas_2 sample_parse sample_today sample_file
     = Inr [row_a, row_b\<lparr>Month := Some ''NaT''\<rparr>, row_c]"
  by (simp_all add: load_data_def read_csv_def sample_file_def sample_df_def clean_sample_rows)


section \<open>Facts about the pandas operations\<close>

lemma set_dropna_values: "set (dropna_values xs) = {v. Some v \<in> set xs}"
  by (induction xs) (auto split: option.splits)

lemma isin_Nil: "isin [] c = False"
  by (cases c) (simp_all add: isin_def)

lemma nunique_card: "nunique xs = card {v. Some v \<in> set xs}"
  by (simp add: nunique_def length_remdups_card_conv set_dropna_values)

lemma nunique_filter_le: "nunique (map f (filter P rows)) \<le> nunique (map f rows)"
proof -
  have "{v. Some v \<in> set (map f (filter P rows))} \<subseteq> {v. Some v \<in> set (map f rows)}"
    by auto
  moreover have "finite {v. Some v \<in> set (map f rows)}"
    by (metis List.finite_set set_dropna_values)
  ultimately show ?thesis
    unfolding nunique_card by (rule card_mono[rotated])
qed

lemma groupby_member:
  "(k, g) \<in> set (groupby key rows) \<Longrightarrow> g = filter (\<lambda>r. key r = Some k) rows \<and> (\<exists>r\<in>set rows. key r = Some k)"
  by (auto simp: groupby_def set_dropna_values)

lemma agg_nunique_bounded:
  "(k, n) \<in> set (agg col nunique (groupby key rows)) \<Longrightarrow> n \<le> nunique (map col rows)"
  by (auto simp: agg_def dest!: groupby_member intro: nunique_filter_le)

section \<open>The filter, the key metrics and the outcome of a run\<close>

text \<open>
  Claim C7. On the empty view no aggregate raises: the number of distinct users and the
  revenue sum are 0, the daily and weekly active user series (and the revenue by segment)
  are empty, and the mean session duration is the missing value \<^verbatim>\<open>NaN\<close>, not a number.
\<close>

theorem empty_view_aggregates:
  "total_users [] = 0 \<and> total_revenue [] = 0 \<and> dau [] = [] \<and> wau [] = []
   \<and> avg_session_duration [] = None
   \<and> rev_device [] = [] \<and> rev_tier [] = [] \<and> rev_mode [] = []"
  by (simp add: total_users_def total_revenue_def dau_def wau_def avg_session_duration_def
      rev_device_def rev_tier_def rev_mode_def revenue_by_segment_def
      nunique_def sum_skipna_def mean_skipna_def agg_def groupby_def)

theorem empty_view_aggregates_witness:
  "filtered_df sample_df [] [''Mobile''] = []
   \<and> metric_users (render stable_argsort sample_df [] [''Mobile'']) = 0
   \<and> metric_revenue (render stable_argsort sample_df [] [''Mobile'']) = 0
   \<and> metric_session (render stable_argsort sample_df [] [''Mobile'']) = None
   \<and> chart_dau (render stable_argsort sample_df [] [''Mobile'']) = []
   \<and> chart_wau (render stable_argsort sample_df [] [''Mobile'']) = []"
  using empty_view_aggregates
  by (simp add: render_def Let_def filtered_df_def isin_Nil)

text \<open>
  Claim C2. The filter keeps exactly the rows, in table order, whose country is one of the
  selected countries and whose device type is one of the selected device types. An empty
  selection of either kind leaves no row, and a row whose country or device type is
  missing is never kept.
\<close>

theorem filtered_df_membership:
  "filtered_df df selected_country selected_device =
     filter (\<lambda>r. (\<exists>c\<in>set selected_country. Country r = Some c)
                \<and> (\<exists>d\<in>set selected_device. Device_Type r = Some d)) df
   \<and> filtered_df df [] selected_device = []
   \<and> filtered_df df selected_country [] = []
   \<and> (\<forall>r\<in>set df. Country r = None \<or> Device_Type r = None
         \<longrightarrow> r \<notin> set (filtered_df df selected_country selected_device))"
proof -
  have "isin sel c = (\<exists>v\<in>set sel. c = Some v)" for sel :: "string list" and c
    by (cases c) (auto simp: isin_def)
  then show ?thesis
    by (auto simp: filtered_df_def)
qed

theorem filtered_df_membership_witness:
  "Country (row_c\<lparr>Country := None\<rparr>) = None
   \<and> row_c\<lparr>Country := None\<rparr> \<in> set [row_a, row_b, row_c\<lparr>Country := None\<rparr>]
   \<and> row_c\<lparr>Country := None\<rparr>
         \<notin> set (filtered_df [row_a, row_b, row_c\<lparr>Country := None\<rparr>] [''US'', ''FR''] [''Mobile''])
   \<and> filtered_df [row_a, row_b, row_c\<lparr>Country := None\<rparr>] [''US'', ''FR''] [''Mobile''] = [row_a]
   \<and> filtered_df [row_a, row_b, row_c\<lparr>Country := None\<rparr>] [] [''Mobile''] = []
   \<and> filtered_df [row_a, row_b, row_c\<lparr>Country := None\<rparr>] [''US'', ''FR''] [] = []"
  using filtered_df_membership
    [of "[row_a, row_b, row_c\<lparr>Country := None\<rparr>]" "[''US'', ''FR'']" "[''Mobile'']"]
  by (simp add: row_a_def row_b_def row_c_def)

text \<open>
  Claim C3. Two runs on the same file with different sidebar selections (and any sorting
  function) end the same way and, when the page is rendered, show the same monthly active
  users: the series is computed from the whole cleaned table.
\<close>

theorem mau_ignores_filter_selection:
  "map_outcome chart_mau (app version to_datetime today argsort file selected_country selected_device)
   = map_outcome chart_mau (app version to_datetime today argsort' file selected_country' selected_device')
   \<and> chart_mau (render argsort df selected_country selected_device) = monthly_active_users df"
  by (simp add: app_def render_def Let_def split: sum.splits)

theorem mau_ignores_filter_selection_witness:
  "map_outcome chart_mau (app Pandas_3 sample_parse sample_today stable_argsort sample_file [''US''] [''Mobile''])
   = map_outcome chart_mau (app Pandas_3 sample_parse sample_today stable_argsort sample_file [''FR''] [])
   \<and> map_outcome shown_records (app Pandas_3 sample_parse sample_today stable_argsort sample_file [''US''] [''Mobile'']) = Rendered 1
   \<and> map_outcome shown_records (app Pandas_3 sample_parse sample_today stable_argsort sample_file [''FR''] []) = Rendered 0"
  using mau_ignores_filter_selection [of Pandas_3 sample_parse sample_today stable_argsort sample_file
      "[''US'']" "[''Mobile'']" stable_argsort "[''FR'']" "[]"]
  by (simp add: app_def load_sample_file render_def Let_def filtered_df_def isin_def
      sample_df_def row_a_def row_b_def row_c_def)

text \<open>
  Claim C10. When the cleaned table has no rows the run stops at \<^verbatim>\<open>st.stop()\<close>: its
  outcome is \<open>Stopped\<close>, and no filter, aggregate or display of the dashboard is computed.
\<close>

theorem empty_dataset_stops:
  "load_data version to_datetime today file = Inr [] \<Longrightarrow>
     app version to_datetime today argsort file selected_country selected_device = Stopped"
  by (simp add: app_def)

theorem empty_dataset_stops_witness:
  "load_data Pandas_3 sample_parse sample_today (Table []) = Inr []
   \<and> app Pandas_3 sample_parse sample_today stable_argsort (Table []) [''US''] [''Mobile''] = Stopped"
proof -
  have h: "load_data Pandas_3 sample_parse sample_today (Table []) = Inr []"
    by (simp add: load_data_def read_csv_def)
  show ?thesis
    using h empty_dataset_stops [OF h, of stable_argsort "[''US'']" "[''Mobile'']"] by simp
qed

text \<open>
  A file that cannot be read makes \<^verbatim>\<open>read_csv\<close> raise, which ends the run as well; the
  page is rendered only for a table with at least one row.
\<close>

lemma unreadable_source_raises:
  "read_csv file = Inl e \<Longrightarrow>
     app version to_datetime today argsort file selected_country selected_device = Raised e"
  by (simp add: app_def load_data_def)

lemma rendered_only_with_rows:
  "app version to_datetime today argsort file selected_country selected_device = Rendered d \<Longrightarrow>
     \<exists>rows. file = Table rows \<and> rows \<noteq> []"
  by (cases "file") (auto simp: app_def load_data_def read_csv_def split: if_splits)

text \<open>
  Claim C9. No bucket of the daily or of the weekly active user series of a view counts
  more users than the number of distinct users of that view.
\<close>

theorem bucket_count_bounded:
  "(\<forall>(b, n)\<in>set (dau view). n \<le> total_users view)
   \<and> (\<forall>(b, n)\<in>set (wau view). n \<le> total_users view)"
  by (auto simp: dau_def wau_def total_users_def dest: agg_nunique_bounded)

theorem bucket_count_bounded_witness:
  "dau sample_df = [((2024, 2, 5), 1), ((2024, 3, 15), 1)]
   \<and> wau sample_df = [(''2024-05'', 1), (''2024-10'', 1)]
   \<and> total_users sample_df = 2"
  using bucket_count_bounded [of sample_df]
  by (simp add: dau_def wau_def total_users_def agg_def groupby_def nunique_def
      sample_df_def row_a_def row_b_def row_c_def)


section \<open>Grouping and summing\<close>

lemma agg_groupby:
  "agg col f (groupby key rows) =
     map (\<lambda>k. (k, f (map col (filter (\<lambda>r. key r = Some k) rows))))
         (sort (remdups (dropna_values (map key rows))))"
  by (simp add: agg_def groupby_def)

lemma groupby_keys:
  "set (map fst (agg col f (groupby key rows))) = {k. \<exists>r\<in>set rows. key r = Some k}"
  "sorted (map fst (agg col f (groupby key rows)))"
  "distinct (map fst (agg col f (groupby key rows)))"
  by (auto simp: agg_groupby comp_def set_dropna_values intro: rev_image_eqI)






section \<open>Sorting a grouped series and the running sum\<close>







section \<open>Cumulative revenue by signup date\<close>



section \<open>The running sum in the arithmetic of the column\<close>










section \<open>Whole numbers within the range of int64\<close>














section \<open>Revenue by segment\<close>




section \<open>Rows whose last login cannot be read\<close>

lemma groupby_excludes_missing_key:
  "key r = None \<Longrightarrow> (k, g) \<in> set (groupby key rows) \<Longrightarrow> r \<notin> set g"
  by (auto simp: groupby_def)

lemma dropna_values_without_row:
  "key c = None \<Longrightarrow>
     dropna_values (map key (filter (\<lambda>x. x \<noteq> c) rows)) = dropna_values (map key rows)"
  by (induction rows) (auto split: option.splits)

lemma filter_key_without_row:
  "key c = None \<Longrightarrow>
     filter (\<lambda>r. key r = Some k) (filter (\<lambda>x. x \<noteq> c) rows) = filter (\<lambda>r. key r = Some k) rows"
  by (induction rows) auto

lemma groupby_without_row:
  "key c = None \<Longrightarrow> groupby key (filter (\<lambda>x. x \<noteq> c) rows) = groupby key rows"
  by (simp only: groupby_def dropna_values_without_row filter_key_without_row)

lemma loaded_row_unparsed_login:
  assumes "load_data version to_datetime today file = Inr df"
    and "c \<in> set df" and "Last_Login c = None"
  shows "Login_Date c = None" and "Week c = None" and "Month c = astype_str version None"
proof -
  from assms(1,2) obtain r where c: "c = clean_row version to_datetime today r"
    by (auto simp: load_data_def split: sum.splits)
  with assms(3) have "coerce to_datetime (Last_Login r) = None"
    by (simp add: clean_row_def Let_def)
  then show "Login_Date c = None" and "Week c = None" and "Month c = astype_str version None"
    by (simp_all add: c clean_row_def Let_def)
qed

lemma length_zero_pad: "length (zero_pad w n) = w"
  by (induction w arbitrary: n) simp_all

lemma length_period_M_str: "length (period_M_str t) = 7"
  by (cases t) (auto simp: period_M_str_def length_zero_pad)

lemma loaded_month_not_NaT:
  assumes "load_data Pandas_3 to_datetime today file = Inr df" and "x \<in> set df"
  shows "Month x \<noteq> Some ''NaT''"
proof -
  from assms obtain r where "x = clean_row Pandas_3 to_datetime today r"
    by (auto simp: load_data_def split: sum.splits)
  then have "Month x = map_option period_M_str (coerce to_datetime (Last_Login r))"
    by (simp add: clean_row_def Let_def astype_str_def split: option.splits)
  moreover have "period_M_str t \<noteq> ''NaT''" for t
    using length_period_M_str [of t] by auto
  ultimately show ?thesis
    by (cases "coerce to_datetime (Last_Login r)") auto
qed

text \<open>
  Claim C1, as the script has it. A record of the loaded table whose last login could not
  be read has no login date and no week, and the daily and weekly active user series of
  any view are the same with and without it. With pandas 3 it has no month either: the
  monthly active users of the table are the same with and without it, and no bucket is
  named \<^verbatim>\<open>NaT\<close>.
\<close>

theorem unparsed_login_in_no_bucket:
  assumes "load_data version to_datetime today file = Inr df"
    and "c \<in> set df" and "Last_Login c = None"
  shows "Login_Date c = None \<and> Week c = None
    \<and> dau (filter (\<lambda>x. x \<noteq> c) view) = dau view
    \<and> wau (filter (\<lambda>x. x \<noteq> c) view) = wau view
    \<and> (version = Pandas_3 \<longrightarrow>
          Month c = None
          \<and> monthly_active_users (filter (\<lambda>x. x \<noteq> c) df) = monthly_active_users df
          \<and> ''NaT'' \<notin> set (map fst (monthly_active_users df)))"
proof -
  note keys = loaded_row_unparsed_login [OF assms]
  have "dau (filter (\<lambda>x. x \<noteq> c) view) = dau view"
    using groupby_without_row [of Login_Date c view] keys(1) by (simp only: dau_def)
  moreover have "wau (filter (\<lambda>x. x \<noteq> c) view) = wau view"
    using groupby_without_row [of Week c view] keys(2) by (simp only: wau_def)
  moreover have "Month c = None
      \<and> monthly_active_users (filter (\<lambda>x. x \<noteq> c) df) = monthly_active_users df
      \<and> ''NaT'' \<notin> set (map fst (monthly_active_users df))" if v: "version = Pandas_3"
  proof -
    have m: "Month c = None"
      using keys(3) v by (simp add: astype_str_def)
    have "monthly_active_users (filter (\<lambda>x. x \<noteq> c) df) = monthly_active_users df"
      using groupby_without_row [of Month c df] m by (simp only: monthly_active_users_def)
    moreover have "''NaT'' \<notin> set (map fst (monthly_active_users df))"
      using loaded_month_not_NaT [OF assms(1) [unfolded v]]
      unfolding monthly_active_users_def groupby_keys by auto
    ultimately show ?thesis
      using m by simp
  qed
  ultimately show ?thesis
    using keys(1,2) by simp
qed

theorem unparsed_login_in_no_bucket_witness:
  "load_data Pandas_3 sample_parse sample_today sample_file = Inr sample_df
   \<and> row_b \<in> set sample_df \<and> Last_Login row_b = None
   \<and> filter (\<lambda>x. x \<noteq> row_b) sample_df = [row_a, row_c]
   \<and> dau [row_a, row_c] = dau sample_df
   \<and> wau [row_a, row_c] = wau sample_df
   \<and> monthly_active_users [row_a, row_c] = monthly_active_users sample_df
   \<and> monthly_active_users sample_df = [(''2024-02'', 1), (''2024-03'', 1)]"
proof -
  have l: "load_data Pandas_3 sample_parse sample_today sample_file = Inr sample_df"
    by (rule load_sample_file)
  have b: "row_b \<in> set sample_df" "Last_Login row_b = None"
    by (simp_all add: sample_df_def row_b_def)
  have f: "filter (\<lambda>x. x \<noteq> row_b) sample_df = [row_a, row_c]"
    by (simp add: sample_df_def row_a_def row_b_def row_c_def)
  have "monthly_active_users sample_df = [(''2024-02'', 1), (''2024-03'', 1)]"
    by (simp add: monthly_active_users_def agg_def groupby_def nunique_def
        sample_df_def row_a_def row_b_def row_c_def)
  then show ?thesis
    using l b f unparsed_login_in_no_bucket [OF l b, of sample_df] by simp
qed

text \<open>
  Before pandas 3 the same record has the text \<^verbatim>\<open>NaT\<close> as its month, and the monthly
  active users of the table have a bucket of that name.
\<close>

lemma unparsed_login_month_before_pandas_3:
  assumes "load_data Pandas_2 to_datetime today file = Inr df"
    and "c \<in> set df" and "Last_Login c = None"
  shows "Month c = Some ''NaT''" and "''NaT'' \<in> set (map fst (monthly_active_users df))"
proof -
  show m: "Month c = Some ''NaT''"
    using loaded_row_unparsed_login(3) [OF assms] by (simp add: astype_str_def)
  with assms(2) show "''NaT'' \<in> set (map fst (monthly_active_users df))"
    unfolding monthly_active_users_def groupby_keys by blast
qed

text \<open>
  The claim as the specification words it fails before pandas 3: the row of user U2 in
  the sample file, whose last login cannot be read, is counted in a bucket named
  \<^verbatim>\<open>NaT\<close> of the monthly active users that the page shows.
\<close>

theorem unparsed_login_NaT_bucket_before_pandas_3:
  "coerce sample_parse (Last_Login csv_b) = None
   \<and> load_data Pandas_2 sample_parse sample_today sample_file
       = Inr [row_a, row_b\<lparr>Month := Some ''NaT''\<rparr>, row_c]
   \<and> map_outcome chart_mau
        (app Pandas_2 sample_parse sample_today stable_argsort sample_file
           [''US'', ''FR''] [''Mobile'', ''Desktop''])
       = Rendered [(''2024-02'', 1), (''2024-03'', 1), (''NaT'', 1)]"
proof -
  have "monthly_active_users [row_a, row_b\<lparr>Month := Some ''NaT''\<rparr>, row_c]
      = [(''2024-02'', 1), (''2024-03'', 1), (''NaT'', 1)]"
    by (simp add: monthly_active_users_def agg_def groupby_def nunique_def
        row_a_def row_b_def row_c_def)
  moreover have "coerce sample_parse (Last_Login csv_b) = None"
    by (simp add: coerce_def sample_parse_def csv_b_def)
  ultimately show ?thesis
    by (simp add: app_def load_sample_file render_def Let_def)
qed

section \<open>Sorting by one column\<close>












section \<open>High-value users\<close>




text \<open>
  With a sorting function that keeps ties in order the result on twenty rows of equal
  revenue is the first ten rows of the view.
\<close>

lemma stable_argsort_keeps_tied_view:
  "top_users stable_argsort 10 tied_view = take 10 tied_view"
  by (simp add: top_users_def head_def sort_values_def nargsort_def stable_argsort_def Let_def
      tied_view_def row_a_def)


end
